theory Spec2Isabelle
  imports Main
begin

section \<open>The rule no-restricted-imports (lib/rules/no-restricted-imports.js)\<close>

text \<open>
  A shallow embedding of the rule's \<^verbatim>\<open>create\<close> function and of the three functions it
  closes over: \<^verbatim>\<open>checkRestrictedPathAndReport\<close>, \<^verbatim>\<open>checkRestrictedPatternAndReport\<close> and
  \<^verbatim>\<open>checkNode\<close>. The variables of the closure (\<^verbatim>\<open>restrictedPathMessages\<close>,
  \<^verbatim>\<open>restrictedPatternMatchers\<close>) are explicit arguments. Each call of \<^verbatim>\<open>context.report\<close>
  appends one descriptor to the list a function returns; an uncaught JavaScript exception
  is the value \<open>Inl\<close> of the result.
\<close>

subsection \<open>JavaScript values\<close>

text \<open>
  A JavaScript value that may be \<^verbatim>\<open>undefined\<close> or \<^verbatim>\<open>null\<close>. The two are different
  values: \<^verbatim>\<open>undefined === null\<close> is false.
\<close>

datatype 'a js_value = Undefined | Null | Defined 'a

text \<open>Truthiness of a string-valued property: the empty string is falsy.\<close>

fun truthy :: "string js_value \<Rightarrow> bool" where
  "truthy (Defined s) = (s \<noteq> [])"
| "truthy Undefined = False"
| "truthy Null = False"

datatype js_error = TypeError

text \<open>\<^verbatim>\<open>Array.prototype.find\<close>: the first element that satisfies the predicate, or
  \<^verbatim>\<open>undefined\<close> (never \<^verbatim>\<open>null\<close>) when there is none.\<close>

fun array_find :: "('a \<Rightarrow> bool) \<Rightarrow> 'a list \<Rightarrow> 'a js_value" where
  "array_find P [] = Undefined"
| "array_find P (x # xs) = (if P x then Defined x else array_find P xs)"

subsection \<open>Syntax tree nodes\<close>

type_synonym position = "nat \<times> nat"
type_synonym loc = "position \<times> position"

datatype node_type = ImportDeclaration | ExportNamedDeclaration | ExportAllDeclaration

datatype specifier_type =
  ImportDefaultSpecifier | ImportNamespaceSpecifier | ImportSpecifier | ExportSpecifier

text \<open>
  A specifier: \<open>sp_imported\<close> and \<open>sp_local\<close> hold the \<^verbatim>\<open>name\<close> of the identifier under
  \<^verbatim>\<open>specifier.imported\<close> and \<^verbatim>\<open>specifier.local\<close>, \<open>None\<close> when the property is absent
  (an export specifier has no \<^verbatim>\<open>imported\<close>).
\<close>

record specifier =
  sp_type :: specifier_type
  sp_imported :: "string option"
  sp_local :: "string option"
  sp_loc :: loc

record token =
  tok_value :: string
  tok_loc :: loc

text \<open>
  A statement node: \<open>source_value\<close> is \<^verbatim>\<open>node.source.value\<close>, \<open>None\<close> when
  \<^verbatim>\<open>node.source\<close> is null (an export without \<^verbatim>\<open>from\<close>); \<open>specifiers\<close> is \<open>None\<close> when the
  node has no such property (an export-all declaration); \<open>tokens\<close> are the node's tokens
  in source order, comments left out, as \<^verbatim>\<open>sourceCode.getFirstToken\<close> sees them.
\<close>

record node =
  node_type :: node_type
  source_value :: "string option"
  specifiers :: "specifier list option"
  tokens :: "token list"
  node_loc :: loc

subsection \<open>Report descriptors\<close>

datatype messageId =
  Path | PathWithCustomMessage
| PatternWithCustomMessage | Patterns
| Everything | EverythingWithCustomMessage
| ImportName | ImportNameWithCustomMessage

text \<open>
  The object handed to \<^verbatim>\<open>context.report\<close>. \<open>rep_loc\<close> is \<open>None\<close> when the descriptor has
  no \<^verbatim>\<open>loc\<close>: the report is then attributed to \<open>rep_node\<close> as a whole. The remaining
  fields are the entries of \<^verbatim>\<open>data\<close>, \<open>None\<close> for an entry the descriptor does not have.
\<close>

record report =
  rep_node :: node
  rep_messageId :: messageId
  rep_loc :: "loc option"
  rep_importSource :: string
  rep_importNames :: "string list option"
  rep_importName :: "string option"
  rep_customMessage :: "string js_value"

subsection \<open>Pattern rules\<close>

text \<open>An element of \<^verbatim>\<open>restrictedPatternMatchers\<close>; \<open>pm_matcher\<close> is
  \<^verbatim>\<open>matcher.ignores\<close> of the compiled pattern.\<close>

record pattern_matcher =
  pm_matcher :: "string \<Rightarrow> bool"
  pm_pattern :: "string js_value"
  pm_message :: "string js_value"

definition pattern_report :: "pattern_matcher \<Rightarrow> string \<Rightarrow> node \<Rightarrow> report" where
  "pattern_report matchedPattern importSource node =
     \<lparr>rep_node = node,
      rep_messageId =
        (if truthy (pm_message matchedPattern) then PatternWithCustomMessage else Patterns),
      rep_loc = None,
      rep_importSource = importSource,
      rep_importNames = None,
      rep_importName = None,
      rep_customMessage = pm_message matchedPattern\<rparr>"

text \<open>
  \<^verbatim>\<open>checkRestrictedPatternAndReport\<close> (lines 216-236). The guard compares the result of
  \<^verbatim>\<open>find\<close> with \<^verbatim>\<open>null\<close> by \<^verbatim>\<open>===\<close>; reading \<^verbatim>\<open>.message\<close> of \<^verbatim>\<open>undefined\<close> throws a
  TypeError.
\<close>

definition checkRestrictedPatternAndReport ::
  "pattern_matcher list \<Rightarrow> string \<Rightarrow> node \<Rightarrow> js_error + report list" where
  "checkRestrictedPatternAndReport restrictedPatternMatchers importSource node =
     (if length restrictedPatternMatchers = 0 then Inr []
      else
        let matchedPattern =
              array_find (\<lambda>patternMatcher. pm_matcher patternMatcher importSource)
                restrictedPatternMatchers
        in if matchedPattern = Null then Inr []
           else (case matchedPattern of
                   Defined mp \<Rightarrow> Inr [pattern_report mp importSource node]
                 | Undefined \<Rightarrow> Inl TypeError
                 | Null \<Rightarrow> Inl TypeError))"

text \<open>
  The parameter \<open>ignore\<close> stands for the external package of that name:
  \<open>ignore pattern\<close> is \<^verbatim>\<open>ignore().add(pattern).ignores\<close>.
\<close>

type_synonym ignore = "string js_value \<Rightarrow> string \<Rightarrow> bool"

subsection \<open>Configuration\<close>

text \<open>
  An element of \<^verbatim>\<open>context.options\<close>, or of a \<^verbatim>\<open>paths\<close> or \<^verbatim>\<open>patterns\<close> array: a string, or
  an object with some of the properties \<^verbatim>\<open>name\<close>, \<^verbatim>\<open>pattern\<close>, \<^verbatim>\<open>message\<close>,
  \<^verbatim>\<open>importNames\<close>, \<^verbatim>\<open>paths\<close>, \<^verbatim>\<open>patterns\<close>. A property the object does not have reads as
  \<^verbatim>\<open>undefined\<close> (\<open>Undefined\<close>, or \<open>None\<close> for the array-valued ones).
\<close>

datatype option_value =
  OptString string
| OptObject
    (opt_name: "string js_value")
    (opt_pattern: "string js_value")
    (opt_message: "string js_value")
    (opt_importNames: "string list option")
    (opt_paths: "option_value list option")
    (opt_patterns: "option_value list option")

text \<open>Lines 104-106: \<^verbatim>\<open>options[0]\<close> is an object that has \<^verbatim>\<open>paths\<close> or \<^verbatim>\<open>patterns\<close>.\<close>

fun isPathAndPatternsObject :: "option_value list \<Rightarrow> bool" where
  "isPathAndPatternsObject (OptObject n p m i paths patterns # rest) =
     (paths \<noteq> None \<or> patterns \<noteq> None)"
| "isPathAndPatternsObject options = False"

text \<open>Lines 108-109; \<^verbatim>\<open>x || []\<close> replaces an absent array by the empty one.\<close>

definition restrictedPaths :: "option_value list \<Rightarrow> option_value list" where
  "restrictedPaths options =
     (if isPathAndPatternsObject options
      then (case opt_paths (hd options) of Some paths \<Rightarrow> paths | None \<Rightarrow> [])
      else options)"

definition restrictedPatterns :: "option_value list \<Rightarrow> option_value list" where
  "restrictedPatterns options =
     (if isPathAndPatternsObject options
      then (case opt_patterns (hd options) of Some patterns \<Rightarrow> patterns | None \<Rightarrow> [])
      else [])"

subsection \<open>The table of exact paths\<close>

text \<open>A value of \<^verbatim>\<open>restrictedPathMessages\<close>: \<^verbatim>\<open>{ message, importNames }\<close>. The
  functions \<open>restrictedPathMessages_of\<close> and \<open>restrictedPatternMatchers_of\<close> below compute
  the two variables of that name from the configured arrays.\<close>

record path_entry =
  entry_message :: "string js_value"
  entry_importNames :: "string list option"

text \<open>A value used as a property key is converted to a string.\<close>

fun property_key :: "string js_value \<Rightarrow> string" where
  "property_key (Defined s) = s"
| "property_key Undefined = ''undefined''"
| "property_key Null = ''null''"

text \<open>
  \<^verbatim>\<open>memo[key] = value\<close> on an object created by \<^verbatim>\<open>{}\<close>. The own properties of the object
  are a map. The key \<^verbatim>\<open>__proto__\<close> is an accessor the object inherits from
  \<^verbatim>\<open>Object.prototype\<close>: assigning an object to it sets the prototype and creates no own
  property, so \<^verbatim>\<open>hasOwnProperty\<close> stays false for it. Every other inherited property of
  \<^verbatim>\<open>Object.prototype\<close> is a writable data property, which assignment shadows.
\<close>

definition object_assign ::
  "(string \<rightharpoonup> 'v) \<Rightarrow> string \<Rightarrow> 'v \<Rightarrow> (string \<rightharpoonup> 'v)" where
  "object_assign memo key v = (if key = ''__proto__'' then memo else memo(key \<mapsto> v))"

text \<open>The callback of \<^verbatim>\<open>reduce\<close> (lines 116-126).\<close>

fun add_restrictedPath ::
  "(string \<rightharpoonup> path_entry) \<Rightarrow> option_value \<Rightarrow> (string \<rightharpoonup> path_entry)" where
  "add_restrictedPath memo (OptString importSource) =
     object_assign memo importSource \<lparr>entry_message = Null, entry_importNames = None\<rparr>"
| "add_restrictedPath memo (OptObject name p message importNames ps pts) =
     object_assign memo (property_key name)
       \<lparr>entry_message = message, entry_importNames = importNames\<rparr>"

definition restrictedPathMessages_of ::
  "option_value list \<Rightarrow> (string \<rightharpoonup> path_entry)" where
  "restrictedPathMessages_of paths = foldl add_restrictedPath Map.empty paths"

text \<open>The key and the value that the callback assigns for an element of the array.\<close>

fun path_key :: "option_value \<Rightarrow> string" where
  "path_key (OptString importSource) = importSource"
| "path_key (OptObject name p message importNames ps pts) = property_key name"

fun path_entry_of :: "option_value \<Rightarrow> path_entry" where
  "path_entry_of (OptString importSource) = \<lparr>entry_message = Null, entry_importNames = None\<rparr>"
| "path_entry_of (OptObject name p message importNames ps pts) =
     \<lparr>entry_message = message, entry_importNames = importNames\<rparr>"

text \<open>The callback of \<^verbatim>\<open>map\<close> (lines 128-145).\<close>

fun pattern_matcher_of :: "ignore \<Rightarrow> option_value \<Rightarrow> pattern_matcher" where
  "pattern_matcher_of ignore (OptString patternObj) =
     \<lparr>pm_matcher = ignore (Defined patternObj),
      pm_pattern = Defined patternObj,
      pm_message = Null\<rparr>"
| "pattern_matcher_of ignore (OptObject n pattern message i ps pts) =
     \<lparr>pm_matcher = ignore pattern,
      pm_pattern = pattern,
      pm_message = message\<rparr>"

definition restrictedPatternMatchers_of ::
  "ignore \<Rightarrow> option_value list \<Rightarrow> pattern_matcher list" where
  "restrictedPatternMatchers_of ignore patterns = map (pattern_matcher_of ignore) patterns"

subsection \<open>The path check\<close>

text \<open>An element of a list in the \<^verbatim>\<open>importNames\<close> map of \<^verbatim>\<open>checkNode\<close>: \<^verbatim>\<open>{ loc }\<close>.\<close>

record specifierData =
  sd_loc :: loc

definition everything_report ::
  "string js_value \<Rightarrow> string list \<Rightarrow> string \<Rightarrow> specifierData \<Rightarrow> node \<Rightarrow> report" where
  "everything_report customMessage restrictedImportNames importSource specifierData node =
     \<lparr>rep_node = node,
      rep_messageId = (if truthy customMessage then EverythingWithCustomMessage else Everything),
      rep_loc = Some (sd_loc specifierData),
      rep_importSource = importSource,
      rep_importNames = Some restrictedImportNames,
      rep_importName = None,
      rep_customMessage = customMessage\<rparr>"

definition importName_report ::
  "string js_value \<Rightarrow> string \<Rightarrow> string \<Rightarrow> node \<Rightarrow> specifierData \<Rightarrow> report" where
  "importName_report customMessage importName importSource node specifier =
     \<lparr>rep_node = node,
      rep_messageId = (if truthy customMessage then ImportNameWithCustomMessage else ImportName),
      rep_loc = Some (sd_loc specifier),
      rep_importSource = importSource,
      rep_importNames = None,
      rep_importName = Some importName,
      rep_customMessage = customMessage\<rparr>"

definition path_report :: "string js_value \<Rightarrow> string \<Rightarrow> node \<Rightarrow> report" where
  "path_report customMessage importSource node =
     \<lparr>rep_node = node,
      rep_messageId = (if truthy customMessage then PathWithCustomMessage else Path),
      rep_loc = None,
      rep_importSource = importSource,
      rep_importNames = None,
      rep_importName = None,
      rep_customMessage = customMessage\<rparr>"

text \<open>Lines 164-177: the report for the first element of the list under \<^verbatim>\<open>"*"\<close>. Element 0
  of an empty array is \<^verbatim>\<open>undefined\<close>, and reading its \<^verbatim>\<open>loc\<close> throws.\<close>

definition report_everything ::
  "string js_value \<Rightarrow> string list \<Rightarrow> string \<Rightarrow> (string \<rightharpoonup> specifierData list) \<Rightarrow> node
   \<Rightarrow> js_error + report list" where
  "report_everything customMessage restrictedImportNames importSource importNames node =
     (case importNames ''*'' of
        None \<Rightarrow> Inr []
      | Some [] \<Rightarrow> Inl TypeError
      | Some (specifierData # others) \<Rightarrow>
          Inr [everything_report customMessage restrictedImportNames importSource
                 specifierData node])"

text \<open>Lines 179-196: the two nested \<^verbatim>\<open>forEach\<close> loops.\<close>

definition report_importNames ::
  "string js_value \<Rightarrow> string list \<Rightarrow> string \<Rightarrow> (string \<rightharpoonup> specifierData list) \<Rightarrow> node
   \<Rightarrow> report list" where
  "report_importNames customMessage restrictedImportNames importSource importNames node =
     concat (map (\<lambda>importName.
                    case importNames importName of
                      None \<Rightarrow> []
                    | Some specifierList \<Rightarrow>
                        map (importName_report customMessage importName importSource node)
                          specifierList)
               restrictedImportNames)"

text \<open>\<^verbatim>\<open>checkRestrictedPathAndReport\<close> (lines 155-207). An array is truthy also when it is
  empty, so the test of line 163 asks whether the entry has \<^verbatim>\<open>importNames\<close> at all.\<close>

definition checkRestrictedPathAndReport ::
  "(string \<rightharpoonup> path_entry) \<Rightarrow> string \<Rightarrow> (string \<rightharpoonup> specifierData list) \<Rightarrow> node
   \<Rightarrow> js_error + report list" where
  "checkRestrictedPathAndReport restrictedPathMessages importSource importNames node =
     (case restrictedPathMessages importSource of
        None \<Rightarrow> Inr []
      | Some entry \<Rightarrow>
          let customMessage = entry_message entry;
              restrictedImportNames = entry_importNames entry
          in (case restrictedImportNames of
                Some names \<Rightarrow>
                  (case report_everything customMessage names importSource importNames node of
                     Inl e \<Rightarrow> Inl e
                   | Inr everything \<Rightarrow>
                       Inr (everything
                            @ report_importNames customMessage names importSource
                                importNames node))
              | None \<Rightarrow> Inr [path_report customMessage importSource node]))"

subsection \<open>The statement check\<close>

text \<open>
  The parameter \<open>trim\<close> stands for \<^verbatim>\<open>String.prototype.trim\<close>, a built-in of the
  language: \<open>trim v\<close> is \<^verbatim>\<open>v.trim()\<close>.
\<close>

type_synonym trim = "string \<Rightarrow> string"

text \<open>\<^verbatim>\<open>sourceCode.getFirstToken(node, skip)\<close>: the token after \<open>skip\<close> tokens of the
  node, or \<^verbatim>\<open>null\<close>.\<close>

definition getFirstToken :: "node \<Rightarrow> nat \<Rightarrow> token option" where
  "getFirstToken node skip =
     (if skip < length (tokens node) then Some (tokens node ! skip) else None)"

text \<open>Lines 254-265: the variable \<^verbatim>\<open>name\<close> after the chain of tests, \<open>None\<close> when it is
  still \<^verbatim>\<open>undefined\<close>.\<close>

definition specifier_name :: "specifier \<Rightarrow> string option" where
  "specifier_name specifier =
     (if sp_type specifier = ImportDefaultSpecifier then Some ''default''
      else if sp_type specifier = ImportNamespaceSpecifier then Some ''*''
      else if sp_imported specifier \<noteq> None then sp_imported specifier
      else if sp_local specifier \<noteq> None then sp_local specifier
      else None)"

text \<open>Lines 267-273: one turn of the loop over the specifiers. A name that is
  \<^verbatim>\<open>undefined\<close> or the empty string is falsy and leaves the map as it is.\<close>

definition add_specifier ::
  "(string \<rightharpoonup> specifierData list) \<Rightarrow> specifier \<Rightarrow> (string \<rightharpoonup> specifierData list)" where
  "add_specifier importNames specifier =
     (let specifierData = \<lparr>sd_loc = sp_loc specifier\<rparr>
      in case specifier_name specifier of
           None \<Rightarrow> importNames
         | Some name \<Rightarrow>
             if name = [] then importNames
             else (case importNames name of
                     Some found \<Rightarrow> importNames(name \<mapsto> found @ [specifierData])
                   | None \<Rightarrow> importNames(name \<mapsto> [specifierData])))"

text \<open>Lines 246-275: the map \<^verbatim>\<open>importNames\<close> that \<^verbatim>\<open>checkNode\<close> builds.\<close>

definition collect_importNames :: "node \<Rightarrow> js_error + (string \<rightharpoonup> specifierData list)" where
  "collect_importNames node =
     (if node_type node = ExportAllDeclaration
      then (case getFirstToken node 1 of
              None \<Rightarrow> Inl TypeError
            | Some starToken \<Rightarrow> Inr (Map.empty(''*'' \<mapsto> [\<lparr>sd_loc = tok_loc starToken\<rparr>])))
      else (case specifiers node of
              Some specs \<Rightarrow> Inr (foldl add_specifier Map.empty specs)
            | None \<Rightarrow> Inr Map.empty))"

text \<open>\<^verbatim>\<open>checkNode\<close> (lines 244-279). Reading \<^verbatim>\<open>value\<close> of a null \<^verbatim>\<open>source\<close> throws.\<close>

definition checkNode ::
  "trim \<Rightarrow> (string \<rightharpoonup> path_entry) \<Rightarrow> pattern_matcher list \<Rightarrow> node
   \<Rightarrow> js_error + report list" where
  "checkNode trim restrictedPathMessages restrictedPatternMatchers node =
     (case source_value node of
        None \<Rightarrow> Inl TypeError
      | Some v \<Rightarrow>
          let importSource = trim v
          in (case collect_importNames node of
                Inl e \<Rightarrow> Inl e
              | Inr importNames \<Rightarrow>
                  (case checkRestrictedPathAndReport restrictedPathMessages importSource
                          importNames node of
                     Inl e \<Rightarrow> Inl e
                   | Inr pathReports \<Rightarrow>
                       (case checkRestrictedPatternAndReport restrictedPatternMatchers
                               importSource node of
                          Inl e \<Rightarrow> Inl e
                        | Inr patternReports \<Rightarrow> Inr (pathReports @ patternReports)))))"

subsection \<open>The listeners\<close>

text \<open>
  \<^verbatim>\<open>create\<close> (lines 101-290) returns an object that maps a node type to the function to
  call on the nodes of that type: the empty object when nothing is restricted.
\<close>

type_synonym listeners = "node_type \<rightharpoonup> (node \<Rightarrow> js_error + report list)"

definition create :: "ignore \<Rightarrow> trim \<Rightarrow> option_value list \<Rightarrow> listeners" where
  "create ignore trim options =
     (if length (restrictedPaths options) = 0 \<and> length (restrictedPatterns options) = 0
      then Map.empty
      else
        let restrictedPathMessages = restrictedPathMessages_of (restrictedPaths options);
            restrictedPatternMatchers =
              restrictedPatternMatchers_of ignore (restrictedPatterns options)
        in [ImportDeclaration \<mapsto>
              checkNode trim restrictedPathMessages restrictedPatternMatchers,
            ExportNamedDeclaration \<mapsto>
              (\<lambda>node. if source_value node \<noteq> None
                       then checkNode trim restrictedPathMessages restrictedPatternMatchers node
                       else Inr []),
            ExportAllDeclaration \<mapsto>
              checkNode trim restrictedPathMessages restrictedPatternMatchers])"

text \<open>
  Modelled from the spec: the host traversal driver, which is not part of the rule. It
  visits the statements in source order and calls the listener registered for the type
  of each; an exception ends the traversal.
\<close>

fun traverse :: "listeners \<Rightarrow> node list \<Rightarrow> js_error + report list" where
  "traverse ls [] = Inr []"
| "traverse ls (node # nodes) =
     (case ls (node_type node) of
        None \<Rightarrow> traverse ls nodes
      | Some listener \<Rightarrow>
          (case listener node of
             Inl e \<Rightarrow> Inl e
           | Inr reports \<Rightarrow>
               (case traverse ls nodes of
                  Inl e \<Rightarrow> Inl e
                | Inr later \<Rightarrow> Inr (reports @ later))))"

subsection \<open>Example statements\<close>

text \<open>The tokens are written out for the export-all declaration only, the one statement
  whose tokens the rule reads.\<close>

text \<open>\<^verbatim>\<open>import d, { x as a, y, x as b } from "mod"\<close>\<close>

definition import_named_specifiers :: "specifier list" where
  "import_named_specifiers =
     [\<lparr>sp_type = ImportDefaultSpecifier, sp_imported = None, sp_local = Some ''d'',
       sp_loc = ((1, 7), (1, 8))\<rparr>,
      \<lparr>sp_type = ImportSpecifier, sp_imported = Some ''x'', sp_local = Some ''a'',
       sp_loc = ((1, 12), (1, 18))\<rparr>,
      \<lparr>sp_type = ImportSpecifier, sp_imported = Some ''y'', sp_local = Some ''y'',
       sp_loc = ((1, 20), (1, 21))\<rparr>,
      \<lparr>sp_type = ImportSpecifier, sp_imported = Some ''x'', sp_local = Some ''b'',
       sp_loc = ((1, 23), (1, 29))\<rparr>]"

definition import_named :: node where
  "import_named =
     \<lparr>node_type = ImportDeclaration,
      source_value = Some ''mod'',
      specifiers = Some import_named_specifiers,
      tokens = [],
      node_loc = ((1, 0), (1, 43))\<rparr>"

text \<open>\<^verbatim>\<open>import * as ns from "mod"\<close>\<close>

definition import_namespace :: node where
  "import_namespace =
     \<lparr>node_type = ImportDeclaration,
      source_value = Some ''mod'',
      specifiers = Some
        [\<lparr>sp_type = ImportNamespaceSpecifier, sp_imported = None, sp_local = Some ''ns'',
          sp_loc = ((1, 7), (1, 14))\<rparr>],
      tokens = [],
      node_loc = ((1, 0), (1, 25))\<rparr>"

text \<open>\<^verbatim>\<open>export * from "mod"\<close>\<close>

definition export_all :: node where
  "export_all =
     \<lparr>node_type = ExportAllDeclaration,
      source_value = Some ''mod'',
      specifiers = None,
      tokens =
        [\<lparr>tok_value = ''export'', tok_loc = ((1, 0), (1, 6))\<rparr>,
         \<lparr>tok_value = ''*'', tok_loc = ((1, 7), (1, 8))\<rparr>,
         \<lparr>tok_value = ''from'', tok_loc = ((1, 9), (1, 13))\<rparr>,
         \<lparr>tok_value = CHR 0x22 # ''mod'' @ [CHR 0x22], tok_loc = ((1, 14), (1, 19))\<rparr>],
      node_loc = ((1, 0), (1, 19))\<rparr>"

text \<open>\<^verbatim>\<open>export { p as q } from "mod"\<close>\<close>

definition export_named :: node where
  "export_named =
     \<lparr>node_type = ExportNamedDeclaration,
      source_value = Some ''mod'',
      specifiers = Some
        [\<lparr>sp_type = ExportSpecifier, sp_imported = None, sp_local = Some ''p'',
          sp_loc = ((1, 9), (1, 15))\<rparr>],
      tokens = [],
      node_loc = ((1, 0), (1, 28))\<rparr>"

text \<open>Matchers for the examples, in place of compiled patterns: one that matches every
  source below \<^verbatim>\<open>foo/\<close>, one that matches the single source it is given, one that matches
  nothing.\<close>

definition below_foo :: "string \<Rightarrow> bool" where
  "below_foo source = (take 4 source = ''foo/'')"

definition exactly :: "string \<Rightarrow> string \<Rightarrow> bool" where
  "exactly pattern source = (source = pattern)"

definition never_ignores :: ignore where
  "never_ignores pattern source = False"

text \<open>For a string of ASCII characters, \<^verbatim>\<open>trim\<close> removes the leading and the trailing
  characters among U+0009 to U+000D and U+0020. The examples, whose sources are ASCII
  strings, use this function for \<open>trim\<close>.\<close>

definition ascii_whitespace :: "char \<Rightarrow> bool" where
  "ascii_whitespace c =
     (c = CHR 0x09 \<or> c = CHR 0x0A \<or> c = CHR 0x0B \<or> c = CHR 0x0C \<or> c = CHR 0x0D
      \<or> c = CHR 0x20)"

definition trim_ascii :: trim where
  "trim_ascii s = rev (dropWhile ascii_whitespace (rev (dropWhile ascii_whitespace s)))"

section \<open>Properties\<close>

subsection \<open>Messages\<close>

text \<open>The schema requires a configured \<^verbatim>\<open>message\<close> to be a string of length at least one.
  For such a message, and for an absent one, the test \<^verbatim>\<open>customMessage ? ... : ...\<close> asks
  whether the rule has a message.\<close>

lemma truthy_has_message:
  "message \<noteq> Defined [] \<Longrightarrow> truthy message = (\<exists>text. message = Defined text)"
  by (cases message) simp_all

subsection \<open>The pattern check\<close>

lemma array_find_none:
  "(\<forall>x \<in> set xs. \<not> P x) \<Longrightarrow> array_find P xs = Undefined"
  by (induction xs) auto

lemma array_find_first:
  "(\<forall>x \<in> set pre. \<not> P x) \<Longrightarrow> P r \<Longrightarrow> array_find P (pre @ r # post) = Defined r"
  by (induction pre) auto

lemma first_match_split:
  "\<exists>x \<in> set xs. P x \<Longrightarrow>
   \<exists>pre r post. xs = pre @ r # post \<and> (\<forall>x \<in> set pre. \<not> P x) \<and> P r"
  by (metis split_list_first_prop)

lemma checkRestrictedPattern_no_match:
  assumes "restrictedPatternMatchers \<noteq> []"
    and "\<forall>pm \<in> set restrictedPatternMatchers. \<not> pm_matcher pm importSource"
  shows "checkRestrictedPatternAndReport restrictedPatternMatchers importSource node
         = Inl TypeError"
  using assms array_find_none [of restrictedPatternMatchers "\<lambda>pm. pm_matcher pm importSource"]
  by (simp add: checkRestrictedPatternAndReport_def)

lemma checkRestrictedPattern_match:
  assumes "\<exists>pm \<in> set restrictedPatternMatchers. pm_matcher pm importSource"
  shows "\<exists>pre r post.
           restrictedPatternMatchers = pre @ r # post
           \<and> (\<forall>pm \<in> set pre. \<not> pm_matcher pm importSource)
           \<and> pm_matcher r importSource
           \<and> checkRestrictedPatternAndReport restrictedPatternMatchers importSource node
               = Inr [pattern_report r importSource node]"
proof -
  from assms obtain pre r post where
    split: "restrictedPatternMatchers = pre @ r # post"
    and before: "\<forall>pm \<in> set pre. \<not> pm_matcher pm importSource"
    and here: "pm_matcher r importSource"
    using first_match_split [of restrictedPatternMatchers "\<lambda>pm. pm_matcher pm importSource"]
    by blast
  have "array_find (\<lambda>pm. pm_matcher pm importSource) restrictedPatternMatchers = Defined r"
    unfolding split using before here by (rule array_find_first)
  then have "checkRestrictedPatternAndReport restrictedPatternMatchers importSource node
             = Inr [pattern_report r importSource node]"
    using split by (simp add: checkRestrictedPatternAndReport_def)
  then show ?thesis
    using split before here by blast
qed

lemma checkRestrictedPattern_empty:
  "checkRestrictedPatternAndReport [] importSource node = Inr []"
  by (simp add: checkRestrictedPatternAndReport_def)

subsection \<open>The path check and the map of names\<close>

lemma checkRestrictedPath_absent:
  "restrictedPathMessages importSource = None \<Longrightarrow>
   checkRestrictedPathAndReport restrictedPathMessages importSource importNames node = Inr []"
  by (simp add: checkRestrictedPathAndReport_def)

lemma checkRestrictedPath_whole:
  "restrictedPathMessages importSource = Some entry \<Longrightarrow> entry_importNames entry = None \<Longrightarrow>
   checkRestrictedPathAndReport restrictedPathMessages importSource importNames node
   = Inr [path_report (entry_message entry) importSource node]"
  by (simp add: checkRestrictedPathAndReport_def)

lemma checkRestrictedPath_scoped:
  "restrictedPathMessages importSource = Some entry \<Longrightarrow>
   entry_importNames entry = Some names \<Longrightarrow>
   checkRestrictedPathAndReport restrictedPathMessages importSource importNames node
   = (case report_everything (entry_message entry) names importSource importNames node of
        Inl e \<Rightarrow> Inl e
      | Inr everything \<Rightarrow>
          Inr (everything
               @ report_importNames (entry_message entry) names importSource importNames node))"
  by (simp add: checkRestrictedPathAndReport_def Let_def)

lemma report_importNames_messageId:
  "r \<in> set (report_importNames customMessage names importSource importNames node) \<Longrightarrow>
   rep_messageId r = ImportName \<or> rep_messageId r = ImportNameWithCustomMessage"
  by (auto simp: report_importNames_def importName_report_def split: option.splits)

lemma report_importNames_Nil [simp]:
  "report_importNames customMessage [] importSource importNames node = []"
  by (simp add: report_importNames_def)

lemma foldl_add_specifier_empty_key:
  "foldl add_specifier m specs [] = m []"
  by (induction specs arbitrary: m)
     (auto simp: add_specifier_def Let_def split: option.splits)

lemma add_specifier_lookup:
  "k \<noteq> [] \<Longrightarrow>
   add_specifier m a k =
     (if specifier_name a = Some k
      then Some ((case m k of None \<Rightarrow> [] | Some found \<Rightarrow> found) @ [\<lparr>sd_loc = sp_loc a\<rparr>])
      else m k)"
  by (auto simp: add_specifier_def Let_def split: option.splits)

lemma foldl_add_specifier:
  "k \<noteq> [] \<Longrightarrow>
   foldl add_specifier m specs k =
     (case filter (\<lambda>sp. specifier_name sp = Some k) specs of
        [] \<Rightarrow> m k
      | sp # sps \<Rightarrow>
          Some ((case m k of None \<Rightarrow> [] | Some found \<Rightarrow> found)
                @ map (\<lambda>sp. \<lparr>sd_loc = sp_loc sp\<rparr>) (sp # sps)))"
proof (induction specs arbitrary: m)
  case Nil
  then show ?case by simp
next
  case (Cons a specs)
  have "foldl add_specifier m (a # specs) k = foldl add_specifier (add_specifier m a) specs k"
    by simp
  also have "\<dots> =
     (case filter (\<lambda>sp. specifier_name sp = Some k) specs of
        [] \<Rightarrow> add_specifier m a k
      | sp # sps \<Rightarrow>
          Some ((case add_specifier m a k of None \<Rightarrow> [] | Some found \<Rightarrow> found)
                @ map (\<lambda>sp. \<lparr>sd_loc = sp_loc sp\<rparr>) (sp # sps)))"
    using Cons.prems by (rule Cons.IH)
  finally show ?case
    using Cons.prems by (simp add: add_specifier_lookup split: list.splits option.splits)
qed

lemma collect_importNames_specifiers:
  assumes "node_type node \<noteq> ExportAllDeclaration" and "specifiers node = Some specs"
  shows "collect_importNames node = Inr (foldl add_specifier Map.empty specs)"
  using assms by (simp add: collect_importNames_def)

lemma collected_lookup:
  assumes "node_type node \<noteq> ExportAllDeclaration" and "specifiers node = Some specs"
    and "collect_importNames node = Inr importNames"
  shows "importNames k =
     (if k = [] then None
      else case filter (\<lambda>sp. specifier_name sp = Some k) specs of
             [] \<Rightarrow> None
           | sp # sps \<Rightarrow> Some (map (\<lambda>sp. \<lparr>sd_loc = sp_loc sp\<rparr>) (sp # sps)))"
proof -
  have m: "importNames = foldl add_specifier Map.empty specs"
    using assms by (simp add: collect_importNames_def)
  show ?thesis
  proof (cases "k = []")
    case True
    then show ?thesis by (simp add: m foldl_add_specifier_empty_key)
  next
    case False
    then show ?thesis by (simp add: m foldl_add_specifier split: list.splits)
  qed
qed

lemma collected_never_empty:
  assumes "collect_importNames node = Inr importNames"
  shows "importNames k \<noteq> Some []"
proof (cases "node_type node = ExportAllDeclaration")
  case True
  then show ?thesis
    using assms by (auto simp: collect_importNames_def split: option.splits if_splits)
next
  case False
  show ?thesis
  proof (cases "specifiers node")
    case None
    then show ?thesis using assms False by (auto simp: collect_importNames_def)
  next
    case (Some specs)
    from collected_lookup [OF False Some assms, of k] show ?thesis
      by (auto split: if_splits list.splits)
  qed
qed

lemma report_everything_total:
  "importNames ''*'' \<noteq> Some [] \<Longrightarrow>
   \<exists>everything. report_everything customMessage names importSource importNames node
                 = Inr everything"
  by (auto simp: report_everything_def split: option.splits list.splits)

lemma checkRestrictedPath_total:
  assumes "importNames ''*'' \<noteq> Some []"
  shows "\<exists>reports. checkRestrictedPathAndReport restrictedPathMessages importSource
                     importNames node = Inr reports"
proof (cases "restrictedPathMessages importSource")
  case None
  then show ?thesis by (simp add: checkRestrictedPath_absent)
next
  case (Some entry)
  show ?thesis
  proof (cases "entry_importNames entry")
    case None
    with Some show ?thesis by (simp add: checkRestrictedPath_whole)
  next
    case (Some names)
    from assms report_everything_total [of importNames "entry_message entry" names importSource node]
    obtain everything where
      "report_everything (entry_message entry) names importSource importNames node
       = Inr everything"
      by blast
    with \<open>restrictedPathMessages importSource = Some entry\<close> Some show ?thesis
      by (simp add: checkRestrictedPath_scoped)
  qed
qed

lemma filter_concat_map_distinct:
  assumes "distinct xs" and "x \<in> set xs"
    and "\<And>y r. r \<in> set (f y) \<Longrightarrow> key r = Some y"
  shows "filter (\<lambda>r. key r = Some x) (concat (map f xs)) = f x"
  using assms(1,2)
proof (induction xs)
  case Nil
  then show ?case by simp
next
  case (Cons a xs)
  have all: "\<And>y. filter (\<lambda>r. key r = Some x) (f y) = (if y = x then f y else [])"
    using assms(3) by (auto simp: filter_empty_conv filter_id_conv)
  have none: "x \<notin> set xs \<Longrightarrow> filter (\<lambda>r. key r = Some x) (concat (map f xs)) = []"
    using assms(3) by (auto simp: filter_empty_conv)
  show ?case
  proof (cases "a = x")
    case True
    with Cons.prems have "x \<notin> set xs" by simp
    with True show ?thesis by (simp add: all none)
  next
    case False
    with Cons.prems have "distinct xs" "x \<in> set xs" by simp_all
    with False show ?thesis by (simp add: all Cons.IH)
  qed
qed

lemma report_importNames_of_name:
  assumes "distinct restrictedImportNames" and "importName \<in> set restrictedImportNames"
  shows "filter (\<lambda>r. rep_importName r = Some importName)
           (report_importNames customMessage restrictedImportNames importSource importNames node)
         = (case importNames importName of
              None \<Rightarrow> []
            | Some occurrences \<Rightarrow>
                map (importName_report customMessage importName importSource node)
                  occurrences)"
  unfolding report_importNames_def
  by (rule filter_concat_map_distinct [OF assms])
     (auto simp: importName_report_def split: option.splits)

lemma report_everything_no_importName:
  "report_everything customMessage names importSource importNames node = Inr everything \<Longrightarrow>
   filter (\<lambda>r. rep_importName r = Some importName) everything = []"
  by (auto simp: report_everything_def everything_report_def
           split: option.splits list.splits)

lemma import_named_collected:
  "foldl add_specifier Map.empty import_named_specifiers =
     [''default'' \<mapsto> [\<lparr>sd_loc = ((1, 7), (1, 8))\<rparr>],
      ''x'' \<mapsto> [\<lparr>sd_loc = ((1, 12), (1, 18))\<rparr>, \<lparr>sd_loc = ((1, 23), (1, 29))\<rparr>],
      ''y'' \<mapsto> [\<lparr>sd_loc = ((1, 20), (1, 21))\<rparr>]]"
  by (simp add: import_named_specifiers_def add_specifier_def specifier_name_def
        fun_upd_twist)

lemma collect_importNames_export_all:
  assumes "node_type node = ExportAllDeclaration"
    and "tokens node = exportToken # starToken # rest"
  shows "collect_importNames node = Inr [''*'' \<mapsto> [\<lparr>sd_loc = tok_loc starToken\<rparr>]]"
  using assms by (simp add: collect_importNames_def getFirstToken_def)

lemma collect_importNames_total:
  assumes "node_type node = ExportAllDeclaration \<longrightarrow> 1 < length (tokens node)"
  shows "\<exists>importNames. collect_importNames node = Inr importNames"
  using assms
  by (auto simp: collect_importNames_def getFirstToken_def split: option.splits)

text \<open>With a pattern rule configured, a statement whose source no rule matches makes
  \<^verbatim>\<open>checkNode\<close> throw, whatever the path check reported before.\<close>

lemma checkNode_no_match_throws:
  assumes "source_value node = Some v"
    and "node_type node = ExportAllDeclaration \<longrightarrow> 1 < length (tokens node)"
    and "restrictedPatternMatchers \<noteq> []"
    and "\<forall>pm \<in> set restrictedPatternMatchers. \<not> pm_matcher pm (trim v)"
  shows "checkNode trim restrictedPathMessages restrictedPatternMatchers node = Inl TypeError"
proof -
  obtain importNames where names: "collect_importNames node = Inr importNames"
    using assms(2) collect_importNames_total by blast
  have "importNames ''*'' \<noteq> Some []"
    using names by (rule collected_never_empty)
  then obtain pathReports where
    "checkRestrictedPathAndReport restrictedPathMessages (trim v) importNames node
     = Inr pathReports"
    using checkRestrictedPath_total by blast
  then show ?thesis
    using assms(1) names checkRestrictedPattern_no_match [OF assms(3,4), of node]
    by (simp add: checkNode_def)
qed

text \<open>When no pattern rule is configured or some pattern rule matches the source,
  \<^verbatim>\<open>checkNode\<close> returns the reports of the path check followed by those of the pattern
  check.\<close>

lemma checkNode_concatenates:
  assumes "source_value node = Some v"
    and "node_type node = ExportAllDeclaration \<longrightarrow> 1 < length (tokens node)"
    and "restrictedPatternMatchers = []
         \<or> (\<exists>pm \<in> set restrictedPatternMatchers. pm_matcher pm (trim v))"
  shows "\<exists>importNames pathReports patternReports.
           collect_importNames node = Inr importNames
           \<and> checkRestrictedPathAndReport restrictedPathMessages (trim v) importNames node
               = Inr pathReports
           \<and> checkRestrictedPatternAndReport restrictedPatternMatchers (trim v) node
               = Inr patternReports
           \<and> checkNode trim restrictedPathMessages restrictedPatternMatchers node
               = Inr (pathReports @ patternReports)
           \<and> ((\<exists>pm \<in> set restrictedPatternMatchers. pm_matcher pm (trim v))
              \<longrightarrow> (\<exists>r \<in> set restrictedPatternMatchers.
                    pm_matcher r (trim v)
                    \<and> patternReports
                        = [\<lparr>rep_node = node,
                            rep_messageId =
                              (if truthy (pm_message r) then PatternWithCustomMessage
                               else Patterns),
                            rep_loc = None,
                            rep_importSource = trim v,
                            rep_importNames = None,
                            rep_importName = None,
                            rep_customMessage = pm_message r\<rparr>]))
           \<and> (\<forall>entry. restrictedPathMessages (trim v) = Some entry
                        \<and> entry_importNames entry = None
                  \<longrightarrow> pathReports
                      = [\<lparr>rep_node = node,
                          rep_messageId =
                            (if truthy (entry_message entry) then PathWithCustomMessage
                             else Path),
                          rep_loc = None,
                          rep_importSource = trim v,
                          rep_importNames = None,
                          rep_importName = None,
                          rep_customMessage = entry_message entry\<rparr>])"
proof -
  obtain importNames where names: "collect_importNames node = Inr importNames"
    using assms(2) collect_importNames_total by blast
  have "importNames ''*'' \<noteq> Some []"
    using names by (rule collected_never_empty)
  then obtain pathReports where
    path: "checkRestrictedPathAndReport restrictedPathMessages (trim v) importNames node
           = Inr pathReports"
    using checkRestrictedPath_total by blast
  have whole: "\<forall>entry. restrictedPathMessages (trim v) = Some entry
                        \<and> entry_importNames entry = None
                 \<longrightarrow> pathReports = [path_report (entry_message entry) (trim v) node]"
    using path by (auto simp: checkRestrictedPath_whole)
  have "\<exists>patternReports.
          checkRestrictedPatternAndReport restrictedPatternMatchers (trim v) node
          = Inr patternReports
          \<and> ((\<exists>pm \<in> set restrictedPatternMatchers. pm_matcher pm (trim v))
             \<longrightarrow> (\<exists>r \<in> set restrictedPatternMatchers.
                   pm_matcher r (trim v)
                   \<and> patternReports = [pattern_report r (trim v) node]))"
  proof (cases "\<exists>pm \<in> set restrictedPatternMatchers. pm_matcher pm (trim v)")
    case True
    then obtain pre r post where
      split: "restrictedPatternMatchers = pre @ r # post"
      and here: "pm_matcher r (trim v)"
      and pattern: "checkRestrictedPatternAndReport restrictedPatternMatchers (trim v) node
                    = Inr [pattern_report r (trim v) node]"
      using checkRestrictedPattern_match [of restrictedPatternMatchers "trim v" node] by blast
    have "r \<in> set restrictedPatternMatchers"
      using split by simp
    with here pattern show ?thesis by blast
  next
    case False
    with assms(3) have "restrictedPatternMatchers = []" by blast
    with False show ?thesis by (simp add: checkRestrictedPattern_empty)
  qed
  then obtain patternReports where
    pattern: "checkRestrictedPatternAndReport restrictedPatternMatchers (trim v) node
              = Inr patternReports"
    and matched: "(\<exists>pm \<in> set restrictedPatternMatchers. pm_matcher pm (trim v))
             \<longrightarrow> (\<exists>r \<in> set restrictedPatternMatchers.
                   pm_matcher r (trim v)
                   \<and> patternReports = [pattern_report r (trim v) node])"
    by blast
  have node: "checkNode trim restrictedPathMessages restrictedPatternMatchers node
              = Inr (pathReports @ patternReports)"
    using assms(1) names path pattern by (simp add: checkNode_def)
  show ?thesis
    using names path pattern node matched whole
    unfolding pattern_report_def path_report_def by blast
qed

subsection \<open>The table of exact paths and the listeners\<close>

lemma add_restrictedPath_assign:
  "add_restrictedPath memo item = object_assign memo (path_key item) (path_entry_of item)"
  by (cases item) simp_all

lemma add_restrictedPath_lookup:
  "add_restrictedPath memo item source =
     (if path_key item = source \<and> source \<noteq> ''__proto__'' then Some (path_entry_of item)
      else memo source)"
  by (auto simp: add_restrictedPath_assign object_assign_def)

lemma foldl_add_restrictedPath_other:
  "\<forall>item \<in> set items. path_key item \<noteq> source \<Longrightarrow>
   foldl add_restrictedPath memo items source = memo source"
  by (induction items arbitrary: memo) (simp_all add: add_restrictedPath_lookup)

lemma foldl_add_restrictedPath_proto:
  "foldl add_restrictedPath memo items ''__proto__'' = memo ''__proto__''"
  by (induction items arbitrary: memo) (simp_all add: add_restrictedPath_lookup)

lemma last_write_wins:
  assumes "path_key later = source" and "source \<noteq> ''__proto__''"
    and "\<forall>item \<in> set after. path_key item \<noteq> source"
  shows "restrictedPathMessages_of (before @ later # after) source = Some (path_entry_of later)"
  using assms
  by (simp add: restrictedPathMessages_of_def foldl_add_restrictedPath_other
        add_restrictedPath_lookup)

lemma restrictedPathMessages_of_dom:
  "dom (foldl add_restrictedPath memo items)
   = dom memo \<union> (path_key ` set items - {''__proto__''})"
proof (induction items arbitrary: memo)
  case Nil
  then show ?case by simp
next
  case (Cons item items)
  have "dom (add_restrictedPath memo item) = dom memo \<union> ({path_key item} - {''__proto__''})"
    by (auto simp: add_restrictedPath_lookup dom_def)
  then show ?case
    by (auto simp: Cons.IH)
qed

lemma traverse_no_listeners: "traverse Map.empty nodes = Inr []"
  by (induction nodes) simp_all

lemma empty_table_iff:
  "restrictedPathMessages_of paths = Map.empty
   \<longleftrightarrow> (\<forall>item \<in> set paths. path_key item = ''__proto__'')"
proof -
  have "restrictedPathMessages_of paths = Map.empty
        \<longleftrightarrow> dom (restrictedPathMessages_of paths) = {}"
    by simp
  also have "\<dots> \<longleftrightarrow> path_key ` set paths - {''__proto__''} = {}"
    by (simp add: restrictedPathMessages_of_def restrictedPathMessages_of_dom)
  also have "\<dots> \<longleftrightarrow> (\<forall>item \<in> set paths. path_key item = ''__proto__'')"
    by auto
  finally show ?thesis .
qed

lemma create_nothing_configured:
  assumes "restrictedPaths options = []" and "restrictedPatterns options = []"
  shows "create ignore trim options = Map.empty
         \<and> traverse (create ignore trim options) nodes = Inr []"
  using assms by (simp add: create_def traverse_no_listeners)

lemma checkNode_empty_tables:
  assumes "source_value node = Some v"
    and "node_type node = ExportAllDeclaration \<longrightarrow> 1 < length (tokens node)"
  shows "checkNode trim Map.empty [] node = Inr []"
proof -
  obtain importNames where "collect_importNames node = Inr importNames"
    using assms(2) collect_importNames_total by blast
  then show ?thesis
    using assms(1)
    by (simp add: checkNode_def checkRestrictedPath_absent checkRestrictedPattern_empty)
qed

text \<open>A statement as the parser makes it: an import or an export-all declaration has a
  source, and an export-all declaration has its first two tokens.\<close>

lemma empty_tables_no_reports:
  assumes "restrictedPathMessages_of (restrictedPaths options) = Map.empty"
    and "restrictedPatternMatchers_of ignore (restrictedPatterns options) = []"
    and "\<forall>node \<in> set nodes.
           (node_type node \<noteq> ExportNamedDeclaration \<longrightarrow> source_value node \<noteq> None)
           \<and> (node_type node = ExportAllDeclaration \<longrightarrow> 1 < length (tokens node))"
  shows "traverse (create ignore trim options) nodes = Inr []"
  using assms(3)
proof (induction nodes)
  case Nil
  then show ?case by simp
next
  case (Cons node nodes)
  then have rest: "traverse (create ignore trim options) nodes = Inr []"
    by simp
  from Cons.prems have shape:
    "node_type node \<noteq> ExportNamedDeclaration \<longrightarrow> source_value node \<noteq> None"
    "node_type node = ExportAllDeclaration \<longrightarrow> 1 < length (tokens node)"
    by simp_all
  have here: "\<forall>listener. create ignore trim options (node_type node) = Some listener
                \<longrightarrow> listener node = Inr []"
    using assms(1,2) shape checkNode_empty_tables [of node _ trim]
    by (cases "node_type node") (auto simp: create_def Let_def split: if_splits)
  show ?case
    using rest here by (auto split: option.splits)
qed


subsection \<open>The claims\<close>

text \<open>
  C1. The claim: when the list of pattern rules is not empty and no matcher matches the
  source, \<^verbatim>\<open>checkRestrictedPatternAndReport\<close> returns with no report and does not throw.
  The code does the opposite: \<^verbatim>\<open>find\<close> yields \<^verbatim>\<open>undefined\<close>, the guard of line 224
  compares it with \<^verbatim>\<open>null\<close> by \<^verbatim>\<open>===\<close> and lets it pass, and line 230 reads
  \<^verbatim>\<open>matchedPattern.message\<close> of \<^verbatim>\<open>undefined\<close>. For every non-empty list of pattern rules
  none of which matches, the function throws a TypeError.
\<close>

theorem no_match_throws:
  assumes "restrictedPatternMatchers \<noteq> []"
    and "\<forall>pm \<in> set restrictedPatternMatchers. \<not> pm_matcher pm importSource"
  shows "checkRestrictedPatternAndReport restrictedPatternMatchers importSource node
         = Inl TypeError"
  using assms by (rule checkRestrictedPattern_no_match)

theorem no_match_throws_witness:
  "checkRestrictedPatternAndReport
     [\<lparr>pm_matcher = exactly ''foo'', pm_pattern = Defined ''foo'', pm_message = Null\<rparr>]
     ''bar'' import_named
   = Inl TypeError"
proof -
  let ?ms = "[\<lparr>pm_matcher = exactly ''foo'', pm_pattern = Defined ''foo'',
               pm_message = Null\<rparr>]"
  have nonempty: "?ms \<noteq> []" by simp
  have none: "\<forall>pm \<in> set ?ms. \<not> pm_matcher pm ''bar''" by (simp add: exactly_def)
  show ?thesis using no_match_throws [OF nonempty none] .
qed

text \<open>
  C2. When at least one pattern rule matches the source, the check emits exactly one
  report: the one for the first matching rule in the order of the configuration
  (\<open>PatternWithCustomMessage\<close> when the message of that rule is a non-empty string, the
  only kind of message the schema admits; else \<open>Patterns\<close>), for the statement node and
  without a \<^verbatim>\<open>loc\<close> of its own.
\<close>

theorem first_match_reported:
  assumes "\<exists>pm \<in> set restrictedPatternMatchers. pm_matcher pm importSource"
  shows "\<exists>pre r post.
           restrictedPatternMatchers = pre @ r # post
           \<and> (\<forall>pm \<in> set pre. \<not> pm_matcher pm importSource)
           \<and> pm_matcher r importSource
           \<and> checkRestrictedPatternAndReport restrictedPatternMatchers importSource node
               = Inr [\<lparr>rep_node = node,
                       rep_messageId =
                         (if truthy (pm_message r) then PatternWithCustomMessage else Patterns),
                       rep_loc = None,
                       rep_importSource = importSource,
                       rep_importNames = None,
                       rep_importName = None,
                       rep_customMessage = pm_message r\<rparr>]"
  using checkRestrictedPattern_match [OF assms, of node]
  unfolding pattern_report_def by blast

text \<open>The rules \<^verbatim>\<open>[{pattern: "foo/*"}, {pattern: "foo/bar", message: "use baz"}]\<close> and the
  source \<^verbatim>\<open>foo/bar\<close>: both match, the first is reported.\<close>

theorem first_match_reported_witness:
  "(\<exists>pm \<in> set [\<lparr>pm_matcher = below_foo, pm_pattern = Defined ''foo/*'', pm_message = Null\<rparr>,
                  \<lparr>pm_matcher = exactly ''foo/bar'', pm_pattern = Defined ''foo/bar'',
                   pm_message = Defined ''use baz''\<rparr>].
      pm_matcher pm ''foo/bar'')
   \<and> checkRestrictedPatternAndReport
        [\<lparr>pm_matcher = below_foo, pm_pattern = Defined ''foo/*'', pm_message = Null\<rparr>,
         \<lparr>pm_matcher = exactly ''foo/bar'', pm_pattern = Defined ''foo/bar'',
          pm_message = Defined ''use baz''\<rparr>]
        ''foo/bar'' import_named
      = Inr [\<lparr>rep_node = import_named, rep_messageId = Patterns, rep_loc = None,
              rep_importSource = ''foo/bar'', rep_importNames = None, rep_importName = None,
              rep_customMessage = Null\<rparr>]"
  using first_match_reported
    [of "[\<lparr>pm_matcher = below_foo, pm_pattern = Defined ''foo/*'', pm_message = Null\<rparr>,
          \<lparr>pm_matcher = exactly ''foo/bar'', pm_pattern = Defined ''foo/bar'',
           pm_message = Defined ''use baz''\<rparr>]" "''foo/bar''" import_named]
  by (simp add: checkRestrictedPatternAndReport_def pattern_report_def below_foo_def
        exactly_def)

text \<open>
  C3. When the table of exact paths holds the source under an entry without
  \<^verbatim>\<open>importNames\<close>, \<^verbatim>\<open>checkRestrictedPathAndReport\<close> emits exactly one report, whatever
  the map of names of the statement holds: \<open>PathWithCustomMessage\<close> when the entry's
  message is a non-empty string (the only kind of message the schema admits), else
  \<open>Path\<close>; the report is for the statement node and has no \<^verbatim>\<open>loc\<close> of its own. When
  the table does not hold the source, the check emits nothing.
\<close>

theorem whole_path_one_report:
  "(restrictedPathMessages importSource = Some entry \<and> entry_importNames entry = None
      \<longrightarrow> checkRestrictedPathAndReport restrictedPathMessages importSource importNames node
          = Inr [\<lparr>rep_node = node,
                  rep_messageId =
                    (if truthy (entry_message entry) then PathWithCustomMessage else Path),
                  rep_loc = None,
                  rep_importSource = importSource,
                  rep_importNames = None,
                  rep_importName = None,
                  rep_customMessage = entry_message entry\<rparr>])
   \<and> (restrictedPathMessages importSource = None
      \<longrightarrow> checkRestrictedPathAndReport restrictedPathMessages importSource importNames node
          = Inr [])"
  by (simp add: checkRestrictedPath_absent checkRestrictedPath_whole path_report_def)

text \<open>The configuration \<^verbatim>\<open>["mod"]\<close>, against an import of four specifiers from \<^verbatim>\<open>mod\<close>
  and against the source \<^verbatim>\<open>fs\<close>.\<close>

theorem whole_path_one_report_witness:
  "restrictedPathMessages_of [OptString ''mod''] ''mod''
     = Some \<lparr>entry_message = Null, entry_importNames = None\<rparr>
   \<and> checkRestrictedPathAndReport (restrictedPathMessages_of [OptString ''mod'']) ''mod''
        (foldl add_specifier Map.empty import_named_specifiers) import_named
      = Inr [\<lparr>rep_node = import_named, rep_messageId = Path, rep_loc = None,
              rep_importSource = ''mod'', rep_importNames = None, rep_importName = None,
              rep_customMessage = Null\<rparr>]
   \<and> restrictedPathMessages_of [OptString ''mod''] ''fs'' = None
   \<and> checkRestrictedPathAndReport (restrictedPathMessages_of [OptString ''mod'']) ''fs''
        (foldl add_specifier Map.empty import_named_specifiers) import_named
      = Inr []"
proof -
  let ?table = "restrictedPathMessages_of [OptString ''mod'']"
  let ?names = "foldl add_specifier Map.empty import_named_specifiers"
  have found: "?table ''mod'' = Some \<lparr>entry_message = Null, entry_importNames = None\<rparr>"
    by (simp add: restrictedPathMessages_of_def object_assign_def)
  have absent: "?table ''fs'' = None"
    by (simp add: restrictedPathMessages_of_def object_assign_def)
  from whole_path_one_report
         [of ?table "''mod''" "\<lparr>entry_message = Null, entry_importNames = None\<rparr>"
             ?names import_named]
       whole_path_one_report
         [of ?table "''fs''" "\<lparr>entry_message = Null, entry_importNames = None\<rparr>"
             ?names import_named]
       found absent
  show ?thesis by simp
qed

text \<open>
  C4. When the entry of the source has \<^verbatim>\<open>importNames\<close> and the map of names of the
  statement has an occurrence under \<^verbatim>\<open>"*"\<close>, the check emits exactly one report of kind
  \<open>Everything\<close> (\<open>EverythingWithCustomMessage\<close> when the message is a non-empty string):
  it comes first, is located at the first occurrence under \<^verbatim>\<open>"*"\<close>, and carries the whole
  list of restricted names. No other report of the check has one of these two kinds, so
  a later occurrence under \<^verbatim>\<open>"*"\<close> adds none.
\<close>

theorem namespace_one_everything_report:
  assumes "restrictedPathMessages importSource = Some entry"
    and "entry_importNames entry = Some restrictedImportNames"
    and "importNames ''*'' = Some (first # others)"
  shows "\<exists>named.
           checkRestrictedPathAndReport restrictedPathMessages importSource importNames node
           = Inr (\<lparr>rep_node = node,
                   rep_messageId =
                     (if truthy (entry_message entry) then EverythingWithCustomMessage
                      else Everything),
                   rep_loc = Some (sd_loc first),
                   rep_importSource = importSource,
                   rep_importNames = Some restrictedImportNames,
                   rep_importName = None,
                   rep_customMessage = entry_message entry\<rparr> # named)
           \<and> (\<forall>r \<in> set named.
                 rep_messageId r \<noteq> Everything
                 \<and> rep_messageId r \<noteq> EverythingWithCustomMessage)"
proof -
  let ?named = "report_importNames (entry_message entry) restrictedImportNames importSource
                  importNames node"
  have "report_everything (entry_message entry) restrictedImportNames importSource
          importNames node
        = Inr [everything_report (entry_message entry) restrictedImportNames importSource
                 first node]"
    using assms(3) by (simp add: report_everything_def)
  then have "checkRestrictedPathAndReport restrictedPathMessages importSource importNames node
             = Inr (everything_report (entry_message entry) restrictedImportNames importSource
                      first node # ?named)"
    using assms(1,2) by (simp add: checkRestrictedPath_scoped)
  moreover have "\<forall>r \<in> set ?named.
                   rep_messageId r \<noteq> Everything
                   \<and> rep_messageId r \<noteq> EverythingWithCustomMessage"
    using report_importNames_messageId by fastforce
  ultimately show ?thesis
    unfolding everything_report_def by blast
qed

text \<open>Two occurrences under \<^verbatim>\<open>"*"\<close>: one report, at the first.\<close>

theorem namespace_one_everything_report_witness:
  "restrictedPathMessages_of
     [OptObject (Defined ''mod'') Undefined (Defined ''use other'') (Some [''x'', ''y''])
        None None] ''mod''
     = Some \<lparr>entry_message = Defined ''use other'', entry_importNames = Some [''x'', ''y'']\<rparr>
   \<and> checkRestrictedPathAndReport
        (restrictedPathMessages_of
           [OptObject (Defined ''mod'') Undefined (Defined ''use other'') (Some [''x'', ''y''])
              None None])
        ''mod''
        [''*'' \<mapsto> [\<lparr>sd_loc = ((1, 7), (1, 14))\<rparr>, \<lparr>sd_loc = ((2, 7), (2, 14))\<rparr>]]
        import_namespace
      = Inr [\<lparr>rep_node = import_namespace, rep_messageId = EverythingWithCustomMessage,
              rep_loc = Some ((1, 7), (1, 14)), rep_importSource = ''mod'',
              rep_importNames = Some [''x'', ''y''], rep_importName = None,
              rep_customMessage = Defined ''use other''\<rparr>]"
proof -
  let ?table = "restrictedPathMessages_of
     [OptObject (Defined ''mod'') Undefined (Defined ''use other'') (Some [''x'', ''y''])
        None None]"
  let ?entry = "\<lparr>entry_message = Defined ''use other'',
                  entry_importNames = Some [''x'', ''y'']\<rparr>"
  let ?names = "[''*'' \<mapsto> [\<lparr>sd_loc = ((1, 7), (1, 14))\<rparr>, \<lparr>sd_loc = ((2, 7), (2, 14))\<rparr>]]"
  have found: "?table ''mod'' = Some ?entry"
    by (simp add: restrictedPathMessages_of_def object_assign_def)
  have scoped: "entry_importNames ?entry = Some [''x'', ''y'']" by simp
  have star: "?names ''*'' = Some [\<lparr>sd_loc = ((1, 7), (1, 14))\<rparr>, \<lparr>sd_loc = ((2, 7), (2, 14))\<rparr>]"
    by simp
  from namespace_one_everything_report
         [where restrictedPathMessages = ?table and importSource = "''mod''"
            and entry = ?entry and importNames = ?names and node = import_namespace,
          OF found scoped star]
       found
  show ?thesis
    by (simp add: checkRestrictedPath_scoped report_everything_def report_importNames_def
          everything_report_def)
qed

text \<open>
  C5. When the entry of the source has \<^verbatim>\<open>importNames\<close>, the reports that follow the
  optional \<open>Everything\<close> report are, for each restricted name in the order of the
  configuration, one \<open>ImportName\<close> report (\<open>ImportNameWithCustomMessage\<close> when the
  message is a non-empty string) for each occurrence the statement has under that name,
  at the location of that occurrence, in the order of the occurrences. So when the
  restricted names are an ordered set (no name is listed twice), the reports that carry
  a restricted name are exactly one for each of its occurrences. And for a statement
  with a list of specifiers, \<^verbatim>\<open>checkNode\<close> collects under every name the locations of
  all the specifiers of that name, in the order of the list: none is dropped, none
  overwritten.
\<close>

theorem name_reports_per_occurrence:
  "(restrictedPathMessages importSource = Some entry
    \<and> entry_importNames entry = Some restrictedImportNames
    \<and> importNames ''*'' \<noteq> Some []
    \<longrightarrow> (\<exists>everything reports.
          checkRestrictedPathAndReport restrictedPathMessages importSource importNames node
          = Inr reports
          \<and> reports
              = everything
                @ concat (map (\<lambda>importName.
                    case importNames importName of
                      None \<Rightarrow> []
                    | Some occurrences \<Rightarrow>
                        map (\<lambda>occurrence.
                               \<lparr>rep_node = node,
                                rep_messageId =
                                  (if truthy (entry_message entry)
                                   then ImportNameWithCustomMessage else ImportName),
                                rep_loc = Some (sd_loc occurrence),
                                rep_importSource = importSource,
                                rep_importNames = None,
                                rep_importName = Some importName,
                                rep_customMessage = entry_message entry\<rparr>)
                          occurrences)
                  restrictedImportNames)
          \<and> length everything \<le> 1
          \<and> (\<forall>r \<in> set everything.
                rep_messageId r = Everything \<or> rep_messageId r = EverythingWithCustomMessage)
          \<and> (distinct restrictedImportNames
              \<longrightarrow> (\<forall>importName \<in> set restrictedImportNames. \<forall>occurrences.
                    importNames importName = Some occurrences
                    \<longrightarrow> filter (\<lambda>r. rep_importName r = Some importName) reports
                        = map (\<lambda>occurrence.
                                 \<lparr>rep_node = node,
                                  rep_messageId =
                                    (if truthy (entry_message entry)
                                     then ImportNameWithCustomMessage else ImportName),
                                  rep_loc = Some (sd_loc occurrence),
                                  rep_importSource = importSource,
                                  rep_importNames = None,
                                  rep_importName = Some importName,
                                  rep_customMessage = entry_message entry\<rparr>)
                            occurrences))))
   \<and> (node_type node \<noteq> ExportAllDeclaration \<and> specifiers node = Some specs
      \<longrightarrow> (\<exists>collected.
            collect_importNames node = Inr collected
            \<and> collected [] = None
            \<and> (\<forall>name. name \<noteq> [] \<longrightarrow>
                  collected name =
                    (case filter (\<lambda>sp. specifier_name sp = Some name) specs of
                       [] \<Rightarrow> None
                     | sp # sps \<Rightarrow> Some (map (\<lambda>sp. \<lparr>sd_loc = sp_loc sp\<rparr>) (sp # sps))))))"
proof (intro conjI impI)
  assume a: "restrictedPathMessages importSource = Some entry
    \<and> entry_importNames entry = Some restrictedImportNames
    \<and> importNames ''*'' \<noteq> Some []"
  let ?cm = "entry_message entry"
  let ?named = "report_importNames ?cm restrictedImportNames importSource importNames node"
  from a have star: "importNames ''*'' \<noteq> Some []" by simp
  obtain everything where
    ev: "report_everything ?cm restrictedImportNames importSource importNames node
         = Inr everything"
    using report_everything_total [of importNames ?cm restrictedImportNames importSource node]
      star by blast
  have shape: "length everything \<le> 1
    \<and> (\<forall>r \<in> set everything.
          rep_messageId r = Everything \<or> rep_messageId r = EverythingWithCustomMessage)"
    using ev
    by (auto simp: report_everything_def everything_report_def
             split: option.splits list.splits)
  have result: "checkRestrictedPathAndReport restrictedPathMessages importSource importNames
                  node = Inr (everything @ ?named)"
    using a ev by (simp add: checkRestrictedPath_scoped)
  have per_name: "distinct restrictedImportNames
      \<longrightarrow> (\<forall>importName \<in> set restrictedImportNames. \<forall>occurrences.
            importNames importName = Some occurrences
            \<longrightarrow> filter (\<lambda>r. rep_importName r = Some importName) (everything @ ?named)
                = map (importName_report ?cm importName importSource node) occurrences)"
    using report_everything_no_importName [OF ev]
    by (simp add: report_importNames_of_name)
  show "\<exists>everything reports.
          checkRestrictedPathAndReport restrictedPathMessages importSource importNames node
          = Inr reports
          \<and> reports
              = everything
                @ concat (map (\<lambda>importName.
                    case importNames importName of
                      None \<Rightarrow> []
                    | Some occurrences \<Rightarrow>
                        map (\<lambda>occurrence.
                               \<lparr>rep_node = node,
                                rep_messageId =
                                  (if truthy (entry_message entry)
                                   then ImportNameWithCustomMessage else ImportName),
                                rep_loc = Some (sd_loc occurrence),
                                rep_importSource = importSource,
                                rep_importNames = None,
                                rep_importName = Some importName,
                                rep_customMessage = entry_message entry\<rparr>)
                          occurrences)
                  restrictedImportNames)
          \<and> length everything \<le> 1
          \<and> (\<forall>r \<in> set everything.
                rep_messageId r = Everything \<or> rep_messageId r = EverythingWithCustomMessage)
          \<and> (distinct restrictedImportNames
              \<longrightarrow> (\<forall>importName \<in> set restrictedImportNames. \<forall>occurrences.
                    importNames importName = Some occurrences
                    \<longrightarrow> filter (\<lambda>r. rep_importName r = Some importName) reports
                        = map (\<lambda>occurrence.
                                 \<lparr>rep_node = node,
                                  rep_messageId =
                                    (if truthy (entry_message entry)
                                     then ImportNameWithCustomMessage else ImportName),
                                  rep_loc = Some (sd_loc occurrence),
                                  rep_importSource = importSource,
                                  rep_importNames = None,
                                  rep_importName = Some importName,
                                  rep_customMessage = entry_message entry\<rparr>)
                            occurrences))"
    using result shape per_name
    unfolding report_importNames_def importName_report_def
    by blast
next
  assume b: "node_type node \<noteq> ExportAllDeclaration \<and> specifiers node = Some specs"
  let ?collected = "foldl add_specifier Map.empty specs"
  have c: "collect_importNames node = Inr ?collected"
    using b by (simp add: collect_importNames_specifiers)
  have "\<forall>name. name \<noteq> [] \<longrightarrow>
          ?collected name =
            (case filter (\<lambda>sp. specifier_name sp = Some name) specs of
               [] \<Rightarrow> None
             | sp # sps \<Rightarrow> Some (map (\<lambda>sp. \<lparr>sd_loc = sp_loc sp\<rparr>) (sp # sps)))"
    by (simp add: foldl_add_specifier split: list.splits)
  moreover have "?collected [] = None"
    by (simp add: foldl_add_specifier_empty_key)
  ultimately show "\<exists>collected.
            collect_importNames node = Inr collected
            \<and> collected [] = None
            \<and> (\<forall>name. name \<noteq> [] \<longrightarrow>
                  collected name =
                    (case filter (\<lambda>sp. specifier_name sp = Some name) specs of
                       [] \<Rightarrow> None
                     | sp # sps \<Rightarrow> Some (map (\<lambda>sp. \<lparr>sd_loc = sp_loc sp\<rparr>) (sp # sps))))"
    using c by blast
qed

text \<open>\<^verbatim>\<open>import d, { x as a, y, x as b } from "mod"\<close> with \<^verbatim>\<open>x\<close> restricted: two reports,
  one for each specifier that imports \<^verbatim>\<open>x\<close>.\<close>

theorem name_reports_per_occurrence_witness:
  "collect_importNames import_named =
     Inr [''default'' \<mapsto> [\<lparr>sd_loc = ((1, 7), (1, 8))\<rparr>],
          ''x'' \<mapsto> [\<lparr>sd_loc = ((1, 12), (1, 18))\<rparr>, \<lparr>sd_loc = ((1, 23), (1, 29))\<rparr>],
          ''y'' \<mapsto> [\<lparr>sd_loc = ((1, 20), (1, 21))\<rparr>]]
   \<and> checkRestrictedPathAndReport
        (restrictedPathMessages_of
           [OptObject (Defined ''mod'') Undefined Undefined (Some [''x'']) None None])
        ''mod''
        [''default'' \<mapsto> [\<lparr>sd_loc = ((1, 7), (1, 8))\<rparr>],
         ''x'' \<mapsto> [\<lparr>sd_loc = ((1, 12), (1, 18))\<rparr>, \<lparr>sd_loc = ((1, 23), (1, 29))\<rparr>],
         ''y'' \<mapsto> [\<lparr>sd_loc = ((1, 20), (1, 21))\<rparr>]]
        import_named
      = Inr [\<lparr>rep_node = import_named, rep_messageId = ImportName,
              rep_loc = Some ((1, 12), (1, 18)), rep_importSource = ''mod'',
              rep_importNames = None, rep_importName = Some ''x'',
              rep_customMessage = Undefined\<rparr>,
             \<lparr>rep_node = import_named, rep_messageId = ImportName,
              rep_loc = Some ((1, 23), (1, 29)), rep_importSource = ''mod'',
              rep_importNames = None, rep_importName = Some ''x'',
              rep_customMessage = Undefined\<rparr>]"
proof -
  let ?table = "restrictedPathMessages_of
           [OptObject (Defined ''mod'') Undefined Undefined (Some [''x'']) None None]"
  let ?entry = "\<lparr>entry_message = Undefined, entry_importNames = Some [''x'']\<rparr>"
  let ?names = "[''default'' \<mapsto> [\<lparr>sd_loc = ((1, 7), (1, 8))\<rparr>],
         ''x'' \<mapsto> [\<lparr>sd_loc = ((1, 12), (1, 18))\<rparr>, \<lparr>sd_loc = ((1, 23), (1, 29))\<rparr>],
         ''y'' \<mapsto> [\<lparr>sd_loc = ((1, 20), (1, 21))\<rparr>]]"
  have found: "?table ''mod'' = Some ?entry"
    by (simp add: restrictedPathMessages_of_def object_assign_def)
  have statement: "node_type import_named \<noteq> ExportAllDeclaration
                   \<and> specifiers import_named = Some import_named_specifiers"
    by (simp add: import_named_def)
  have collected: "collect_importNames import_named = Inr ?names"
    using import_named_collected statement by (simp add: collect_importNames_def)
  from name_reports_per_occurrence
         [where restrictedPathMessages = ?table and importSource = "''mod''"
            and entry = ?entry and restrictedImportNames = "[''x'']"
            and importNames = ?names and node = import_named
            and specs = import_named_specifiers]
       found statement collected
  show ?thesis
    by (simp add: checkRestrictedPath_scoped report_everything_def report_importNames_def
          importName_report_def)
qed

text \<open>
  C6. The claim: when two path rules of the configuration have the same source, the
  table maps the source to the message and \<^verbatim>\<open>importNames\<close> of the later one. Lemma
  \<open>last_write_wins\<close> above proves this for every source but one. For the source
  \<^verbatim>\<open>__proto__\<close> the assignment of line 118 or 120 sets the prototype of \<^verbatim>\<open>memo\<close> and
  stores nothing: after \<^verbatim>\<open>[{name: "__proto__", message: "first"}, {name: "__proto__",
  message: "second"}]\<close> the table has no entry for that source.
\<close>

theorem proto_source_not_stored:
  "restrictedPathMessages_of
     [OptObject (Defined ''__proto__'') Undefined (Defined ''first'') None None None,
      OptObject (Defined ''__proto__'') Undefined (Defined ''second'') None None None]
     ''__proto__''
   = None"
  by (simp add: restrictedPathMessages_of_def object_assign_def)

text \<open>
  C7. The claim: when the table of paths and the list of pattern rules built from the
  configuration are both empty, \<^verbatim>\<open>checkNode\<close> is never called and no statement gets a
  report. The table is empty for a configuration that is not (lemma
  \<open>empty_table_iff\<close>) exactly when every configured path has the key \<^verbatim>\<open>__proto__\<close>, the
  key that the assignment of lines 118 and 120 fails to store (C6). The guard of line
  112 tests the configured array, finds it non-empty, and \<^verbatim>\<open>create\<close> registers
  \<^verbatim>\<open>checkNode\<close> for the three kinds of statement: for the configuration
  \<^verbatim>\<open>["__proto__"]\<close> the table and the list of pattern rules are empty, and \<^verbatim>\<open>checkNode\<close>
  runs on every statement. It reports nothing there (lemma \<open>empty_tables_no_reports\<close>
  proves this half of the claim for every configuration).
\<close>

theorem empty_tables_listeners_registered:
  "restrictedPathMessages_of (restrictedPaths [OptString ''__proto__'']) = Map.empty
   \<and> restrictedPatternMatchers_of never_ignores (restrictedPatterns [OptString ''__proto__''])
       = []
   \<and> create never_ignores trim_ascii [OptString ''__proto__''] ImportDeclaration
       = Some (checkNode trim_ascii Map.empty [])
   \<and> create never_ignores trim_ascii [OptString ''__proto__''] ExportNamedDeclaration \<noteq> None
   \<and> create never_ignores trim_ascii [OptString ''__proto__''] ExportAllDeclaration
       = Some (checkNode trim_ascii Map.empty [])"
  by (simp add: restrictedPaths_def restrictedPatterns_def restrictedPathMessages_of_def
        object_assign_def restrictedPatternMatchers_of_def create_def Let_def)

text \<open>
  C8. The name under which \<^verbatim>\<open>checkNode\<close> files a specifier: \<^verbatim>\<open>"default"\<close> for a default
  specifier, \<^verbatim>\<open>"*"\<close> for a namespace specifier, the imported name for any other
  specifier that has one, and the local name otherwise. For a statement with a list of
  specifiers, the occurrences collected under a name are the locations of exactly the
  specifiers with that name. For an export-all declaration the map holds one occurrence,
  under \<^verbatim>\<open>"*"\<close>, at the second token of the statement: the token that follows
  \<^verbatim>\<open>export\<close>, which is the wildcard.
\<close>

theorem name_key_derivation:
  "(sp_type sp = ImportDefaultSpecifier \<longrightarrow> specifier_name sp = Some ''default'')
   \<and> (sp_type sp = ImportNamespaceSpecifier \<longrightarrow> specifier_name sp = Some ''*'')
   \<and> (sp_type sp \<noteq> ImportDefaultSpecifier \<and> sp_type sp \<noteq> ImportNamespaceSpecifier
      \<and> sp_imported sp = Some imported
      \<longrightarrow> specifier_name sp = Some imported)
   \<and> (sp_type sp \<noteq> ImportDefaultSpecifier \<and> sp_type sp \<noteq> ImportNamespaceSpecifier
      \<and> sp_imported sp = None
      \<longrightarrow> specifier_name sp = sp_local sp)
   \<and> (node_type node \<noteq> ExportAllDeclaration \<and> specifiers node = Some specs
      \<longrightarrow> (\<exists>collected.
            collect_importNames node = Inr collected
            \<and> (\<forall>name. name \<noteq> [] \<longrightarrow>
                  (case collected name of None \<Rightarrow> {} | Some occurrences \<Rightarrow> set occurrences)
                  = (\<lambda>sp. \<lparr>sd_loc = sp_loc sp\<rparr>)
                      ` {sp \<in> set specs. specifier_name sp = Some name})))
   \<and> (node_type node = ExportAllDeclaration \<and> tokens node = exportToken # starToken # rest
      \<longrightarrow> collect_importNames node = Inr [''*'' \<mapsto> [\<lparr>sd_loc = tok_loc starToken\<rparr>]])"
proof (intro conjI impI)
  assume a: "node_type node \<noteq> ExportAllDeclaration \<and> specifiers node = Some specs"
  let ?collected = "foldl add_specifier Map.empty specs"
  have c: "collect_importNames node = Inr ?collected"
    using a by (simp add: collect_importNames_specifiers)
  have "\<forall>name. name \<noteq> [] \<longrightarrow>
          (case ?collected name of None \<Rightarrow> {} | Some occurrences \<Rightarrow> set occurrences)
          = (\<lambda>sp. \<lparr>sd_loc = sp_loc sp\<rparr>) ` {sp \<in> set specs. specifier_name sp = Some name}"
  proof (intro allI impI)
    fix name :: string
    assume n: "name \<noteq> []"
    let ?same = "filter (\<lambda>sp. specifier_name sp = Some name) specs"
    have "(case ?collected name of None \<Rightarrow> {} | Some occurrences \<Rightarrow> set occurrences)
          = set (map (\<lambda>sp. \<lparr>sd_loc = sp_loc sp\<rparr>) ?same)"
      using n by (cases ?same) (simp_all add: foldl_add_specifier)
    then show "(case ?collected name of None \<Rightarrow> {} | Some occurrences \<Rightarrow> set occurrences)
          = (\<lambda>sp. \<lparr>sd_loc = sp_loc sp\<rparr>) ` {sp \<in> set specs. specifier_name sp = Some name}"
      by simp
  qed
  with c show "\<exists>collected.
            collect_importNames node = Inr collected
            \<and> (\<forall>name. name \<noteq> [] \<longrightarrow>
                  (case collected name of None \<Rightarrow> {} | Some occurrences \<Rightarrow> set occurrences)
                  = (\<lambda>sp. \<lparr>sd_loc = sp_loc sp\<rparr>)
                      ` {sp \<in> set specs. specifier_name sp = Some name})"
    by blast
qed (auto simp: specifier_name_def collect_importNames_export_all)

text \<open>One specifier of each kind, \<^verbatim>\<open>export { p as q } from "mod"\<close> and
  \<^verbatim>\<open>export * from "mod"\<close>.\<close>

theorem name_key_derivation_witness:
  "specifier_name \<lparr>sp_type = ImportDefaultSpecifier, sp_imported = None,
                    sp_local = Some ''d'', sp_loc = ((1, 7), (1, 8))\<rparr> = Some ''default''
   \<and> specifier_name \<lparr>sp_type = ImportNamespaceSpecifier, sp_imported = None,
                      sp_local = Some ''ns'', sp_loc = ((1, 7), (1, 14))\<rparr> = Some ''*''
   \<and> specifier_name \<lparr>sp_type = ImportSpecifier, sp_imported = Some ''x'',
                      sp_local = Some ''a'', sp_loc = ((1, 12), (1, 18))\<rparr> = Some ''x''
   \<and> specifier_name \<lparr>sp_type = ExportSpecifier, sp_imported = None,
                      sp_local = Some ''p'', sp_loc = ((1, 9), (1, 15))\<rparr> = Some ''p''
   \<and> collect_importNames export_named = Inr [''p'' \<mapsto> [\<lparr>sd_loc = ((1, 9), (1, 15))\<rparr>]]
   \<and> collect_importNames export_all = Inr [''*'' \<mapsto> [\<lparr>sd_loc = ((1, 7), (1, 8))\<rparr>]]"
proof -
  let ?default = "\<lparr>sp_type = ImportDefaultSpecifier, sp_imported = None,
                    sp_local = Some ''d'', sp_loc = ((1, 7), (1, 8))\<rparr>"
  let ?namespace = "\<lparr>sp_type = ImportNamespaceSpecifier, sp_imported = None,
                      sp_local = Some ''ns'', sp_loc = ((1, 7), (1, 14))\<rparr>"
  let ?named = "\<lparr>sp_type = ImportSpecifier, sp_imported = Some ''x'',
                  sp_local = Some ''a'', sp_loc = ((1, 12), (1, 18))\<rparr>"
  let ?exported = "\<lparr>sp_type = ExportSpecifier, sp_imported = None,
                     sp_local = Some ''p'', sp_loc = ((1, 9), (1, 15))\<rparr>"
  have named_export: "node_type export_named \<noteq> ExportAllDeclaration
                      \<and> specifiers export_named = Some [?exported]"
    by (simp add: export_named_def)
  have all_export: "node_type export_all = ExportAllDeclaration
     \<and> tokens export_all =
         \<lparr>tok_value = ''export'', tok_loc = ((1, 0), (1, 6))\<rparr>
         # \<lparr>tok_value = ''*'', tok_loc = ((1, 7), (1, 8))\<rparr>
         # [\<lparr>tok_value = ''from'', tok_loc = ((1, 9), (1, 13))\<rparr>,
            \<lparr>tok_value = CHR 0x22 # ''mod'' @ [CHR 0x22], tok_loc = ((1, 14), (1, 19))\<rparr>]"
    by (simp add: export_all_def)
  have collected: "collect_importNames export_named
                   = Inr [''p'' \<mapsto> [\<lparr>sd_loc = ((1, 9), (1, 15))\<rparr>]]"
    by (simp add: collect_importNames_def export_named_def add_specifier_def
          specifier_name_def)
  from name_key_derivation [where sp = ?default]
       name_key_derivation [where sp = ?namespace]
       name_key_derivation [where sp = ?named and imported = "''x''"]
       name_key_derivation
         [where sp = ?exported and node = export_named and specs = "[?exported]"]
       name_key_derivation
         [where node = export_all
            and exportToken = "\<lparr>tok_value = ''export'', tok_loc = ((1, 0), (1, 6))\<rparr>"
            and starToken = "\<lparr>tok_value = ''*'', tok_loc = ((1, 7), (1, 8))\<rparr>"
            and rest = "[\<lparr>tok_value = ''from'', tok_loc = ((1, 9), (1, 13))\<rparr>,
                         \<lparr>tok_value = CHR 0x22 # ''mod'' @ [CHR 0x22],
                          tok_loc = ((1, 14), (1, 19))\<rparr>]"]
       named_export all_export collected
  show ?thesis by simp
qed

text \<open>
  C9. The claim: for every statement both checks run, and the reports of the path check
  are followed by those of the pattern check. \<^verbatim>\<open>checkNode\<close> does call the two in this
  order (lines 277-278), and lemma \<open>checkNode_concatenates\<close> proves the claim for every
  statement on which the pattern check returns. But the pattern check throws when a
  pattern rule is configured and none matches (C1), and the exception leaves
  \<^verbatim>\<open>checkNode\<close>: for a source that the table restricts and no pattern rule matches, the
  path check alone returns its one report, and \<^verbatim>\<open>checkNode\<close> ends with the TypeError.
\<close>

theorem unmatched_pattern_loses_path_report:
  assumes "source_value node = Some v"
    and "node_type node = ExportAllDeclaration \<longrightarrow> 1 < length (tokens node)"
    and "restrictedPathMessages (trim v) = Some entry"
    and "entry_importNames entry = None"
    and "restrictedPatternMatchers \<noteq> []"
    and "\<forall>pm \<in> set restrictedPatternMatchers. \<not> pm_matcher pm (trim v)"
  shows "\<exists>importNames.
           collect_importNames node = Inr importNames
           \<and> checkRestrictedPathAndReport restrictedPathMessages (trim v) importNames node
               = Inr [\<lparr>rep_node = node,
                       rep_messageId =
                         (if truthy (entry_message entry) then PathWithCustomMessage else Path),
                       rep_loc = None,
                       rep_importSource = trim v,
                       rep_importNames = None,
                       rep_importName = None,
                       rep_customMessage = entry_message entry\<rparr>]
           \<and> checkNode trim restrictedPathMessages restrictedPatternMatchers node
               = Inl TypeError"
proof -
  obtain importNames where names: "collect_importNames node = Inr importNames"
    using assms(2) collect_importNames_total by blast
  have "checkRestrictedPathAndReport restrictedPathMessages (trim v) importNames node
        = Inr [path_report (entry_message entry) (trim v) node]"
    using assms(3,4) by (rule checkRestrictedPath_whole)
  moreover have "checkNode trim restrictedPathMessages restrictedPatternMatchers node
                 = Inl TypeError"
    using assms(1,2,5,6) by (rule checkNode_no_match_throws)
  ultimately show ?thesis
    using names unfolding path_report_def by blast
qed

text \<open>The configuration \<^verbatim>\<open>[{paths: ["mod"], patterns: ["foo"]}]\<close> and
  \<^verbatim>\<open>import d, { x as a, y, x as b } from "mod"\<close>.\<close>

theorem unmatched_pattern_loses_path_report_witness:
  "checkRestrictedPathAndReport (restrictedPathMessages_of [OptString ''mod''])
     (trim_ascii ''mod'') (foldl add_specifier Map.empty import_named_specifiers) import_named
   = Inr [\<lparr>rep_node = import_named, rep_messageId = Path, rep_loc = None,
           rep_importSource = ''mod'', rep_importNames = None, rep_importName = None,
           rep_customMessage = Null\<rparr>]
   \<and> checkNode trim_ascii (restrictedPathMessages_of [OptString ''mod''])
       [\<lparr>pm_matcher = exactly ''foo'', pm_pattern = Defined ''foo'', pm_message = Null\<rparr>]
       import_named
     = Inl TypeError"
proof -
  let ?table = "restrictedPathMessages_of [OptString ''mod'']"
  let ?entry = "\<lparr>entry_message = Null, entry_importNames = None\<rparr>"
  let ?ms = "[\<lparr>pm_matcher = exactly ''foo'', pm_pattern = Defined ''foo'',
               pm_message = Null\<rparr>]"
  have trimmed: "trim_ascii ''mod'' = ''mod''"
    by (simp add: trim_ascii_def ascii_whitespace_def)
  have source: "source_value import_named = Some ''mod''"
    by (simp add: import_named_def)
  have shape: "node_type import_named = ExportAllDeclaration
               \<longrightarrow> 1 < length (tokens import_named)"
    by (simp add: import_named_def)
  have found: "?table (trim_ascii ''mod'') = Some ?entry"
    by (simp add: trimmed restrictedPathMessages_of_def object_assign_def)
  have whole: "entry_importNames ?entry = None" by simp
  have nonempty: "?ms \<noteq> []" by simp
  have none: "\<forall>pm \<in> set ?ms. \<not> pm_matcher pm (trim_ascii ''mod'')"
    by (simp add: trimmed exactly_def)
  have collected: "collect_importNames import_named
                   = Inr (foldl add_specifier Map.empty import_named_specifiers)"
    by (simp add: collect_importNames_def import_named_def)
  from unmatched_pattern_loses_path_report
         [where trim = trim_ascii and restrictedPathMessages = ?table
            and restrictedPatternMatchers = ?ms,
          OF source shape found whole nonempty none]
       collected
  show ?thesis by (auto simp: trimmed)
qed

text \<open>
  C10. An entry whose \<^verbatim>\<open>importNames\<close> is the empty array is name-scoped (an empty array
  is truthy): the check emits no \<open>Path\<close> report and no \<open>ImportName\<close> report. It emits
  nothing for a statement without an occurrence under \<^verbatim>\<open>"*"\<close>, and exactly the one
  \<open>Everything\<close> report, at the first such occurrence, for a statement that has one.
\<close>

theorem empty_importNames_is_name_scoped:
  assumes "restrictedPathMessages importSource = Some entry"
    and "entry_importNames entry = Some []"
  shows "(importNames ''*'' = None
          \<longrightarrow> checkRestrictedPathAndReport restrictedPathMessages importSource importNames node
              = Inr [])
       \<and> (\<forall>first others. importNames ''*'' = Some (first # others)
          \<longrightarrow> checkRestrictedPathAndReport restrictedPathMessages importSource importNames node
              = Inr [\<lparr>rep_node = node,
                      rep_messageId =
                        (if truthy (entry_message entry) then EverythingWithCustomMessage
                         else Everything),
                      rep_loc = Some (sd_loc first),
                      rep_importSource = importSource,
                      rep_importNames = Some [],
                      rep_importName = None,
                      rep_customMessage = entry_message entry\<rparr>])"
  using assms
  by (simp add: checkRestrictedPath_scoped report_everything_def everything_report_def)

text \<open>The configuration \<^verbatim>\<open>[{name: "mod", importNames: []}]\<close>, against a default import
  and against a namespace import.\<close>

theorem empty_importNames_is_name_scoped_witness:
  "restrictedPathMessages_of
     [OptObject (Defined ''mod'') Undefined Undefined (Some []) None None] ''mod''
     = Some \<lparr>entry_message = Undefined, entry_importNames = Some []\<rparr>
   \<and> checkRestrictedPathAndReport
        (restrictedPathMessages_of
           [OptObject (Defined ''mod'') Undefined Undefined (Some []) None None])
        ''mod''
        [''default'' \<mapsto> [\<lparr>sd_loc = ((1, 7), (1, 8))\<rparr>]]
        import_named
      = Inr []
   \<and> checkRestrictedPathAndReport
        (restrictedPathMessages_of
           [OptObject (Defined ''mod'') Undefined Undefined (Some []) None None])
        ''mod''
        [''*'' \<mapsto> [\<lparr>sd_loc = ((1, 7), (1, 14))\<rparr>]]
        import_namespace
      = Inr [\<lparr>rep_node = import_namespace, rep_messageId = Everything,
              rep_loc = Some ((1, 7), (1, 14)), rep_importSource = ''mod'',
              rep_importNames = Some [], rep_importName = None,
              rep_customMessage = Undefined\<rparr>]"
proof -
  let ?table = "restrictedPathMessages_of
           [OptObject (Defined ''mod'') Undefined Undefined (Some []) None None]"
  let ?entry = "\<lparr>entry_message = Undefined, entry_importNames = Some []\<rparr>"
  have found: "?table ''mod'' = Some ?entry"
    by (simp add: restrictedPathMessages_of_def object_assign_def)
  have scoped: "entry_importNames ?entry = Some []" by simp
  from empty_importNames_is_name_scoped
         [where restrictedPathMessages = ?table and importSource = "''mod''"
            and entry = ?entry
            and importNames = "[''default'' \<mapsto> [\<lparr>sd_loc = ((1, 7), (1, 8))\<rparr>]]"
            and node = import_named, OF found scoped]
       empty_importNames_is_name_scoped
         [where restrictedPathMessages = ?table and importSource = "''mod''"
            and entry = ?entry
            and importNames = "[''*'' \<mapsto> [\<lparr>sd_loc = ((1, 7), (1, 14))\<rparr>]]"
            and node = import_namespace, OF found scoped]
       found
  show ?thesis by simp
qed

end
